theory Spec2Isabelle
  imports Complex_Main
begin

section \<open>Numbers and errors\<close>

text \<open>
  Python's floats are modelled as real numbers, its ints as \<open>int\<close>. The built-in
  \<^verbatim>\<open>round(x, ndigits)\<close> rounds to the nearest multiple of \<open>10^-ndigits\<close> and
  breaks an exact tie towards the even neighbour; its result is identified with the decimal
  it denotes. A floating-point expression evaluates to a value close to, but not always
  equal to, its exact value, which decides the direction of rounding when the exact value
  sits on a tie. Where a statement below depends on that, the deviation is an explicit
  argument of the modelled function.
\<close>

definition py_round :: "real \<Rightarrow> nat \<Rightarrow> real" where
  "py_round x ndigits =
     (let y = x * 10 ^ ndigits;
          f = \<lfloor>y\<rfloor>;
          d = y - of_int f
      in of_int (if d < 1 / 2 then f
                 else if 1 / 2 < d then f + 1
                 else if even f then f else f + 1) / 10 ^ ndigits)"

text \<open>
  The failures the modelled functions could run into: a missing dictionary key and a
  division by zero (numpy answers the latter with \<^verbatim>\<open>inf\<close> or \<^verbatim>\<open>nan\<close> and a
  warning; the model treats it as a failure all the same, so that a guard against it shows
  in the result type).
\<close>

datatype error = KeyError string | ZeroDivisionError

definition truediv :: "real \<Rightarrow> real \<Rightarrow> error + real" where
  "truediv a b = (if b = 0 then Inl ZeroDivisionError else Inr (a / b))"

section \<open>config.py\<close>

definition RISK_COLORS :: "(string \<times> string) list" where
  "RISK_COLORS =
     [(''low'', ''#28A745''),
      (''moderate'', ''#FFC107''),
      (''high'', ''#DC3545''),
      (''very_high'', ''#721C24'')]"

text \<open>
  \<^verbatim>\<open>RISK_COLORS[k]\<close>, read while the configuration is loaded; each key looked up below
  is one of the four in the table.
\<close>

definition risk_color :: "string \<Rightarrow> string" where
  "risk_color k = (case map_of RISK_COLORS k of Some c \<Rightarrow> c | None \<Rightarrow> [])"

record risk_zone =
  zone_min :: real
  zone_max :: real
  zone_color :: string
  zone_label :: string

text \<open>\<^verbatim>\<open>RISK_ZONES\<close>, in the insertion order the dictionary is iterated in.\<close>

definition RISK_ZONES :: "(string \<times> risk_zone) list" where
  "RISK_ZONES =
     [(''undertrained'', \<lparr>zone_min = 0, zone_max = 0.8,
         zone_color = risk_color ''moderate'', zone_label = ''Undertrained''\<rparr>),
      (''optimal'', \<lparr>zone_min = 0.8, zone_max = 1.3,
         zone_color = risk_color ''low'', zone_label = ''Optimal Zone''\<rparr>),
      (''high_risk'', \<lparr>zone_min = 1.3, zone_max = 1.5,
         zone_color = risk_color ''moderate'', zone_label = ''Elevated Risk''\<rparr>),
      (''danger'', \<lparr>zone_min = 1.5, zone_max = 2.0,
         zone_color = risk_color ''high'', zone_label = ''High Risk''\<rparr>),
      (''critical'', \<lparr>zone_min = 2.0, zone_max = 999,
         zone_color = risk_color ''very_high'', zone_label = ''Critical Risk''\<rparr>)]"

definition WELLNESS_WEIGHTS :: "(string \<times> real) list" where
  "WELLNESS_WEIGHTS =
     [(''sleep_quality'', 0.25),
      (''fatigue'', 0.20),
      (''muscle_soreness'', 0.20),
      (''stress'', 0.15),
      (''mood'', 0.10),
      (''motivation'', 0.10)]"

record alert_thresholds =
  acwr_warning :: real
  acwr_danger :: real
  wellness_warning :: real
  consecutive_high_load_days :: int

definition ALERT_THRESHOLDS :: alert_thresholds where
  "ALERT_THRESHOLDS =
     \<lparr>acwr_warning = 1.3, acwr_danger = 1.5, wellness_warning = 5.0,
      consecutive_high_load_days = 3\<rparr>"

definition ACUTE_PERIOD_DAYS :: real where
  "ACUTE_PERIOD_DAYS = 7"

definition CHRONIC_PERIOD_DAYS :: real where
  "CHRONIC_PERIOD_DAYS = 28"

section \<open>acwr\_calculator.py\<close>

subsection \<open>calculate\_acwr\<close>

text \<open>
  A row of the training data frame: its date (in days, fractions for the time of day) and
  its training load. The window selections keep the rows with
  \<open>start < date \<le> calculation_date\<close> and sum their loads.
\<close>

record training_row =
  date :: real
  training_load :: real

definition window_load :: "training_row list \<Rightarrow> real \<Rightarrow> real \<Rightarrow> real" where
  "window_load df start calculation_date =
     sum_list (map training_load
       (filter (\<lambda>r. start < date r \<and> date r \<le> calculation_date) df))"

definition acute_load :: "training_row list \<Rightarrow> real \<Rightarrow> real" where
  "acute_load df calculation_date =
     window_load df (calculation_date - ACUTE_PERIOD_DAYS) calculation_date"

definition chronic_load :: "training_row list \<Rightarrow> real \<Rightarrow> real" where
  "chronic_load df calculation_date =
     window_load df (calculation_date - CHRONIC_PERIOD_DAYS) calculation_date"

text \<open>
  \<open>now\<close> is the clock reading used when no calculation date is given.
\<close>

definition calculate_acwr :: "real \<Rightarrow> training_row list \<Rightarrow> real option \<Rightarrow> error + real" where
  "calculate_acwr now training_data calculation_date_arg =
     (let calculation_date = (case calculation_date_arg of None \<Rightarrow> now | Some d \<Rightarrow> d);
          acute = acute_load training_data calculation_date;
          chronic = chronic_load training_data calculation_date
      in case truediv acute ACUTE_PERIOD_DAYS of
           Inl e \<Rightarrow> Inl e
         | Inr acute_avg \<Rightarrow>
             (case truediv chronic CHRONIC_PERIOD_DAYS of
                Inl e \<Rightarrow> Inl e
              | Inr chronic_avg \<Rightarrow>
                  if chronic_avg = 0 then
                    (if acute_avg = 0 then Inr 1.0 else Inr 2.0)
                  else
                    (case truediv acute_avg chronic_avg of
                       Inl e \<Rightarrow> Inl e
                     | Inr acwr \<Rightarrow> Inr (py_round acwr 2))))"

subsection \<open>get\_risk\_level\<close>

record risk_level =
  zone :: string
  label :: string
  color :: string
  acwr :: real

definition in_zone :: "risk_zone \<Rightarrow> real \<Rightarrow> bool" where
  "in_zone zone_info a \<longleftrightarrow> zone_min zone_info \<le> a \<and> a < zone_max zone_info"

text \<open>The loop over the zones: the first zone whose interval holds the value wins.\<close>

fun find_zone :: "(string \<times> risk_zone) list \<Rightarrow> real \<Rightarrow> risk_level option" where
  "find_zone [] a = None"
| "find_zone ((zone_name, zone_info) # rest) a =
     (if in_zone zone_info a
      then Some \<lparr>zone = zone_name, label = zone_label zone_info,
                 color = zone_color zone_info, acwr = a\<rparr>
      else find_zone rest a)"

definition get_risk_level :: "real \<Rightarrow> risk_level" where
  "get_risk_level a =
     (case find_zone RISK_ZONES a of
        Some r \<Rightarrow> r
      | None \<Rightarrow> \<lparr>zone = ''critical'', label = ''Critical Risk'',
                  color = risk_color ''very_high'', acwr = a\<rparr>)"

subsection \<open>calculate\_wellness\_score\<close>

text \<open>
  The dictionary of normalised metrics, and the loop over the weights that looks each
  weighted metric up in it.
\<close>

definition normalized_metrics :: "int \<Rightarrow> int \<Rightarrow> int \<Rightarrow> int \<Rightarrow> int \<Rightarrow> int \<Rightarrow> (string \<times> int) list" where
  "normalized_metrics sleep_quality fatigue muscle_soreness stress mood motivation =
     [(''sleep_quality'', sleep_quality),
      (''fatigue'', 11 - fatigue),
      (''muscle_soreness'', 11 - muscle_soreness),
      (''stress'', 11 - stress),
      (''mood'', mood),
      (''motivation'', motivation)]"

fun weighted_score :: "(string \<times> real) list \<Rightarrow> (string \<times> int) list \<Rightarrow> real \<Rightarrow> error + real" where
  "weighted_score [] normalized score = Inr score"
| "weighted_score ((metric, weight) # rest) normalized score =
     (case map_of normalized metric of
        None \<Rightarrow> Inl (KeyError metric)
      | Some v \<Rightarrow> weighted_score rest normalized (score + of_int v * weight))"

definition calculate_wellness_score ::
  "int \<Rightarrow> int \<Rightarrow> int \<Rightarrow> int \<Rightarrow> int \<Rightarrow> int \<Rightarrow> error + real" where
  "calculate_wellness_score sleep_quality fatigue muscle_soreness stress mood motivation =
     (case weighted_score WELLNESS_WEIGHTS
             (normalized_metrics sleep_quality fatigue muscle_soreness stress mood motivation) 0 of
        Inl e \<Rightarrow> Inl e
      | Inr score \<Rightarrow> Inr (py_round (score * 10) 1))"

subsection \<open>calculate\_combined\_risk\<close>

record combined =
  combined_risk :: real
  acwr_risk :: int
  wellness_risk :: real
  status :: string
  status_color :: string
  recommendation :: string

definition acwr_base_risk :: "real \<Rightarrow> int" where
  "acwr_base_risk a =
     (if a < 0.8 then 30
      else if a \<le> 1.3 then 10
      else if a \<le> 1.5 then 50
      else if a \<le> 2.0 then 75
      else 95)"

definition overall_status :: "real \<Rightarrow> string \<times> string \<times> string" where
  "overall_status c =
     (if c < 25 then
        (''Low Risk'', ''#28A745'', ''Athlete is in good condition. Continue current program.'')
      else if c < 45 then
        (''Moderate Risk'', ''#FFC107'', ''Monitor closely. Consider reducing intensity slightly.'')
      else if c < 65 then
        (''Elevated Risk'', ''#FD7E14'', ''Reduce training load by 20-30%. Focus on recovery.'')
      else if c < 80 then
        (''High Risk'', ''#DC3545'', ''Significantly reduce training. Prioritize rest and recovery.'')
      else
        (''Critical Risk'', ''#721C24'', ''URGENT: Rest required. Consult medical staff before training.''))"

text \<open>
  \<open>err_w\<close> is the deviation of the float \<^verbatim>\<open>100 - wellness_score\<close> from its exact
  value, \<open>err_c\<close> that of the float sum \<^verbatim>\<open>(acwr_risk * 0.6) + (wellness_risk * 0.4)\<close>
  from the exact value of its operands. Both are tiny (of the order of 1e-14) and zero when the
  arithmetic is exact; they matter only for the direction of the final rounding.
\<close>

definition calculate_combined_risk :: "real \<Rightarrow> real \<Rightarrow> real \<Rightarrow> real \<Rightarrow> combined" where
  "calculate_combined_risk err_w err_c a wellness_score =
     (let risk = acwr_base_risk a;
          w_risk = 100 - wellness_score + err_w;
          c_risk = of_int risk * 0.6 + w_risk * 0.4 + err_c;
          (st, col, rec) = overall_status c_risk
      in \<lparr>combined_risk = py_round c_risk 1,
          acwr_risk = risk,
          wellness_risk = py_round w_risk 1,
          status = st,
          status_color = col,
          recommendation = rec\<rparr>)"

subsection \<open>check\_alerts\<close>

text \<open>
  An alert dictionary. The text of a float inside a message is produced by \<open>fmt\<close>
  (Python's float formatting); \<open>clock k\<close> is the ISO text of the \<open>k\<close>-th reading of the
  system clock during the call.
\<close>

record alert =
  alert_type :: string
  athlete_id :: string
  athlete_name :: string
  message :: string
  action :: string
  timestamp :: string

definition acwr_alerts ::
  "(real \<Rightarrow> string) \<Rightarrow> (nat \<Rightarrow> string) \<Rightarrow> string \<Rightarrow> string \<Rightarrow> real \<Rightarrow> alert list" where
  "acwr_alerts fmt clock aid aname a =
     (if a \<ge> 2.0 then
        [\<lparr>alert_type = ''critical'', athlete_id = aid, athlete_name = aname,
          message = ''CRITICAL: ACWR at '' @ fmt a @ '' - Very high injury risk!'',
          action = ''Immediate rest required. Contact medical staff.'',
          timestamp = clock 0\<rparr>]
      else if a \<ge> acwr_danger ALERT_THRESHOLDS then
        [\<lparr>alert_type = ''warning'', athlete_id = aid, athlete_name = aname,
          message = ''WARNING: ACWR at '' @ fmt a @ '' - High injury risk'',
          action = ''Reduce training load significantly'',
          timestamp = clock 0\<rparr>]
      else if a \<ge> acwr_warning ALERT_THRESHOLDS then
        [\<lparr>alert_type = ''caution'', athlete_id = aid, athlete_name = aname,
          message = ''CAUTION: ACWR at '' @ fmt a @ '' - Elevated risk'',
          action = ''Monitor closely and consider reducing intensity'',
          timestamp = clock 0\<rparr>]
      else [])"

definition wellness_alerts ::
  "(real \<Rightarrow> string) \<Rightarrow> string \<Rightarrow> string \<Rightarrow> string \<Rightarrow> real \<Rightarrow> alert list" where
  "wellness_alerts fmt stamp aid aname wellness_score =
     (if wellness_score < wellness_warning ALERT_THRESHOLDS then
        [\<lparr>alert_type = ''warning'', athlete_id = aid, athlete_name = aname,
          message = ''LOW WELLNESS: Score at '' @ fmt wellness_score @ ''/100'',
          action = ''Check in with athlete. Consider recovery day.'',
          timestamp = stamp\<rparr>]
      else [])"

text \<open>
  The function appends the alerts of its ACWR chain, then the wellness alert. Its last
  parameter, the combined-risk dictionary, is never read.
\<close>

definition check_alerts ::
  "(real \<Rightarrow> string) \<Rightarrow> (nat \<Rightarrow> string) \<Rightarrow> string \<Rightarrow> string \<Rightarrow> real \<Rightarrow> real \<Rightarrow> 'c \<Rightarrow> alert list" where
  "check_alerts fmt clock aid aname a wellness_score combined_risk_dict =
     (let alerts = acwr_alerts fmt clock aid aname a
      in alerts @ wellness_alerts fmt (clock (length alerts)) aid aname wellness_score)"

section \<open>app.py: TaekwondoAnalyzer\<close>

subsection \<open>Data\<close>

text \<open>
  The metrics dictionary \<^verbatim>\<open>analyze_frame\<close> builds has a fixed shape, so it is a record;
  a detected kick is a copy of it with the key \<^verbatim>\<open>kick_number\<close> added.
\<close>

record metrics =
  frame_idx :: int
  frame_time :: real
  kick_height :: real
  knee_angle :: real
  hip_flexion :: real
  support_knee :: real
  hip_rotation :: real
  kicking_leg :: string
  level :: string
  visibility :: real

record kick_data = metrics +
  kick_number :: int

text \<open>
  The geometry of \<^verbatim>\<open>analyze_frame\<close> (landmark access, angles and height in numpy
  floating point) is not modelled. Its results enter as the input: \<open>None\<close> when the method
  returns early without metrics (no landmarks, a hip missing, both ankles missing), and
  otherwise the values of its local variables before they are rounded.
\<close>

datatype leg = left | right

record raw_metrics =
  raw_kick_leg :: leg
  raw_kick_height :: real
  raw_knee_angle :: real
  raw_hip_flexion :: real
  raw_support_knee_angle :: real
  raw_hip_rotation :: real
  raw_visibility :: real

fun capitalize :: "leg \<Rightarrow> string" where
  "capitalize left = ''Left''"
| "capitalize right = ''Right''"

record analyzer =
  detected_kicks :: "kick_data list"
  metrics_history :: "metrics list"
  frame_analysis :: "metrics list"
  cooldown :: int

text \<open>The state \<^verbatim>\<open>__init__\<close> sets up.\<close>

definition new_analyzer :: analyzer where
  "new_analyzer = \<lparr>detected_kicks = [], metrics_history = [], frame_analysis = [], cooldown = 0\<rparr>"

subsection \<open>analyze\_frame\<close>

definition classify_level :: "real \<Rightarrow> string" where
  "classify_level h =
     (if h \<ge> 70 then ''HEAD''
      else if h \<ge> 50 then ''CHEST''
      else if h \<ge> 30 then ''BODY''
      else ''LOW'')"

definition build_metrics :: "raw_metrics \<Rightarrow> real \<Rightarrow> int \<Rightarrow> metrics" where
  "build_metrics p t i =
     \<lparr>frame_idx = i,
      frame_time = t,
      kick_height = py_round (raw_kick_height p) 1,
      knee_angle = py_round (raw_knee_angle p) 1,
      hip_flexion = py_round (raw_hip_flexion p) 1,
      support_knee = py_round (raw_support_knee_angle p) 1,
      hip_rotation = py_round (raw_hip_rotation p) 1,
      kicking_leg = capitalize (raw_kick_leg p),
      level = classify_level (raw_kick_height p),
      visibility = py_round (raw_visibility p) 1\<rparr>"

text \<open>
  Kick detection compares the unrounded height with 25 and needs a cooldown of 0; it
  sets the cooldown to 10. The decrement that follows is a separate \<^verbatim>\<open>if\<close>, so it
  also runs on the frame that detected the kick.
\<close>

definition detect_kick :: "raw_metrics \<Rightarrow> metrics \<Rightarrow> analyzer \<Rightarrow> analyzer" where
  "detect_kick p m self =
     (if raw_kick_height p \<ge> 25 \<and> cooldown self = 0 then
        self\<lparr>detected_kicks := detected_kicks self @
                [metrics.extend m (kick_data.fields (int (length (detected_kicks self)) + 1))],
             cooldown := 10\<rparr>
      else self)"

definition tick_cooldown :: "analyzer \<Rightarrow> analyzer" where
  "tick_cooldown self =
     (if cooldown self > 0 then self\<lparr>cooldown := cooldown self - 1\<rparr> else self)"

definition analyze_frame ::
  "raw_metrics option \<Rightarrow> real \<Rightarrow> int \<Rightarrow> analyzer \<Rightarrow> metrics option \<times> analyzer" where
  "analyze_frame landmarks t i self =
     (case landmarks of
        None \<Rightarrow> (None, self)
      | Some p \<Rightarrow>
          (let m = build_metrics p t i;
               self1 = tick_cooldown (detect_kick p m self);
               self2 = self1\<lparr>metrics_history := metrics_history self1 @ [m],
                            frame_analysis := frame_analysis self1 @ [m]\<rparr>
           in (Some m, self2)))"

text \<open>
  A video is a stream of frames, each with its landmarks, time and index; the caller feeds
  them to one analyzer in order.
\<close>

type_synonym frame = "raw_metrics option \<times> real \<times> int"

fun process_frames :: "frame list \<Rightarrow> analyzer \<Rightarrow> analyzer" where
  "process_frames [] self = self"
| "process_frames ((landmarks, t, i) # rest) self =
     process_frames rest (snd (analyze_frame landmarks t i self))"

subsection \<open>calculate\_score and get\_grade\<close>

text \<open>
  \<open>None\<close> stands for a falsy argument (\<^verbatim>\<open>None\<close> or an empty dictionary). The defaults
  of \<^verbatim>\<open>metrics.get\<close> apply to absent keys only, which a metrics record does not have.
\<close>

definition knee_points :: "real \<Rightarrow> int \<times> string \<times> string" where
  "knee_points knee =
     (if knee \<ge> 160 then (25, ''Full leg extension - maximum power'', ''success'')
      else if knee \<ge> 140 then (20, ''Good extension - aim for full lock'', ''info'')
      else if knee \<ge> 120 then (15, ''Moderate extension - extend further'', ''warning'')
      else (10, ''Bent knee - focus on extension'', ''warning''))"

definition height_points :: "real \<Rightarrow> int \<times> string \<times> string" where
  "height_points height =
     (if height \<ge> 70 then (30, ''Head level - competition standard'', ''success'')
      else if height \<ge> 50 then (22, ''Chest level - good target area'', ''info'')
      else if height \<ge> 30 then (15, ''Body level - increase flexibility'', ''warning'')
      else (8, ''Low kick - work on hip mobility'', ''warning''))"

definition hip_points :: "real \<Rightarrow> int \<times> string \<times> string" where
  "hip_points hip =
     (if hip \<ge> 110 then (20, ''Excellent hip chamber'', ''success'')
      else if hip \<ge> 90 then (15, ''Good chamber position'', ''info'')
      else (10, ''Improve knee chamber'', ''warning''))"

definition support_points :: "real \<Rightarrow> int \<times> string \<times> string" where
  "support_points support =
     (if 160 \<le> support \<and> support \<le> 180 then (15, ''Stable base - excellent balance'', ''success'')
      else if support \<ge> 140 then (10, ''Good stability'', ''info'')
      else (5, ''Straighten support leg'', ''warning''))"

definition visibility_points :: "real \<Rightarrow> int" where
  "visibility_points vis =
     (if vis \<ge> 80 then 10
      else if vis \<ge> 60 then 7
      else 4)"

definition calculate_score :: "metrics option \<Rightarrow> int \<times> (string \<times> string) list" where
  "calculate_score arg =
     (case arg of
        None \<Rightarrow> (0, [])
      | Some m \<Rightarrow>
          (let (s1, f1) = knee_points (knee_angle m);
               (s2, f2) = height_points (kick_height m);
               (s3, f3) = hip_points (hip_flexion m);
               (s4, f4) = support_points (support_knee m);
               s5 = visibility_points (visibility m);
               score = 0 + s1 + s2 + s3 + s4 + s5
           in (min 100 score, [f1, f2, f3, f4])))"

definition grades :: "(int \<times> string \<times> string \<times> string) list" where
  "grades =
     [(90, ''A+'', ''Elite'', ''#4ade80''),
      (85, ''A'', ''Excellent'', ''#4ade80''),
      (80, ''A-'', ''Very Good'', ''#4ade80''),
      (75, ''B+'', ''Good'', ''#60a5fa''),
      (70, ''B'', ''Above Average'', ''#60a5fa''),
      (65, ''B-'', ''Fair'', ''#fbbf24''),
      (60, ''C+'', ''Average'', ''#fbbf24''),
      (55, ''C'', ''Below Average'', ''#f97316''),
      (0, ''D'', ''Needs Work'', ''#ef4444'')]"

fun first_grade :: "(int \<times> string \<times> string \<times> string) list \<Rightarrow> int \<Rightarrow> string \<times> string \<times> string" where
  "first_grade [] score = (''D'', ''Needs Work'', ''#ef4444'')"
| "first_grade ((threshold, grade, txt, col) # rest) score =
     (if score \<ge> threshold then (grade, txt, col) else first_grade rest score)"

definition get_grade :: "int \<Rightarrow> string \<times> string \<times> string" where
  "get_grade score = first_grade grades score"

section \<open>The claims as the specification words them\<close>

text \<open>
  The specification's reading of the ACWR risk bands behind the combined risk: closed-open
  zones, with 30 for undertrained, 10 for optimal, 50 for elevated, 75 for high and 95 for
  critical.
\<close>

definition spec_zone_risk :: "real \<Rightarrow> int" where
  "spec_zone_risk a =
     (if a < 0.8 then 30
      else if a < 1.3 then 10
      else if a < 1.5 then 50
      else if a < 2.0 then 75
      else 95)"

text \<open>A frame whose measured kick height is at least 25, and one that is not.\<close>

definition high_frame :: "frame \<Rightarrow> bool" where
  "high_frame fr = (case fst fr of None \<Rightarrow> False | Some p \<Rightarrow> raw_kick_height p \<ge> 25)"

definition low_frame :: "frame \<Rightarrow> bool" where
  "low_frame fr = (case fst fr of None \<Rightarrow> True | Some p \<Rightarrow> raw_kick_height p < 25)"

definition frame_index :: "frame \<Rightarrow> int" where
  "frame_index fr = snd (snd fr)"

section \<open>Sample inputs and the invariant of kick detection\<close>

text \<open>
  A frame with measured kick height \<open>h\<close> and index \<open>k\<close> of a 30 fps video, and a stream of
  21 frames whose frames 3 to 17 (15 consecutive frames) hold a kick height of 30 while the
  others stay at 10.
\<close>

definition sample_frame :: "real \<Rightarrow> nat \<Rightarrow> frame" where
  "sample_frame h k =
     (Some \<lparr>raw_kick_leg = right, raw_kick_height = h, raw_knee_angle = 150,
            raw_hip_flexion = 100, raw_support_knee_angle = 165, raw_hip_rotation = 20,
            raw_visibility = 90\<rparr>, real k / 30, int k)"

definition sample_pre :: "frame list" where
  "sample_pre = map (sample_frame 10) [0..<3]"

definition sample_spike :: "frame list" where
  "sample_spike = map (sample_frame 30) [3..<18]"

definition sample_post :: "frame list" where
  "sample_post = map (sample_frame 10) [18..<21]"

text \<open>
  A float formatter that prints two decimals of a value below 10, and a clock that stands
  still, for running \<^verbatim>\<open>check_alerts\<close> on concrete inputs.
\<close>

definition sample_fmt :: "real \<Rightarrow> string" where
  "sample_fmt x =
     (let n = nat \<lfloor>x * 100\<rfloor>;
          digit = (\<lambda>k. char_of (48 + k mod 10))
      in [digit (n div 100), CHR ''.'', digit (n div 10), digit n])"

definition sample_clock :: "nat \<Rightarrow> string" where
  "sample_clock k = ''2024-01-01T09:00:00''"

text \<open>
  What holds of an analyzer after the frame with index \<open>L\<close>: the cooldown is between 0 and
  9, the detected kicks lie at least 10 frame indices apart, and a kick at index \<open>e\<close> has
  been followed by at least \<open>9 - cooldown\<close> further indices.
\<close>

definition spaced :: "int \<Rightarrow> analyzer \<Rightarrow> bool" where
  "spaced L s \<longleftrightarrow>
     0 \<le> cooldown s \<and> cooldown s \<le> 9 \<and>
     sorted_wrt (\<lambda>a b. frame_idx a + 10 \<le> frame_idx b) (detected_kicks s) \<and>
     (\<forall>k \<in> set (detected_kicks s). frame_idx k + 9 - cooldown s \<le> L)"

section \<open>Rounding\<close>

lemma py_round_exact:
  assumes "x * 10 ^ n = of_int k"
  shows "py_round x n = x"
proof -
  have "of_int k / 10 ^ n = x" using assms by (simp add: field_simps)
  then show ?thesis unfolding py_round_def assms by (simp add: Let_def)
qed

lemma py_round_error: "\<bar>py_round x n - x\<bar> \<le> 1 / (2 * 10 ^ n)"
proof -
  define y where "y = x * 10 ^ n"
  define f where "f = \<lfloor>y\<rfloor>"
  define r where "r = (if y - of_int f < 1 / 2 then f
                 else if 1 / 2 < y - of_int f then f + 1
                 else if even f then f else f + 1)"
  have fl: "of_int f \<le> y" "y < of_int f + 1" unfolding f_def by linarith+
  have near: "\<bar>of_int r - y\<bar> \<le> 1 / 2" using fl unfolding r_def by (auto split: if_splits)
  have "py_round x n = of_int r / 10 ^ n"
    unfolding py_round_def r_def f_def y_def by (simp add: Let_def)
  moreover have "x = y / 10 ^ n" unfolding y_def by simp
  ultimately have "\<bar>py_round x n - x\<bar> = \<bar>of_int r - y\<bar> / 10 ^ n"
    by (simp add: diff_divide_distrib [symmetric] abs_divide del: of_int_diff)
  also have "\<dots> \<le> (1 / 2) / 10 ^ n"
    by (rule divide_right_mono) (use near in simp_all)
  finally show ?thesis by simp
qed

lemma py_round_near:
  assumes "x * 10 ^ n = of_int k" "\<bar>y - x\<bar> < 1 / (2 * 10 ^ n)"
  shows "py_round y n = x"
proof -
  define z where "z = y * 10 ^ n"
  have x: "x = of_int k / 10 ^ n" using assms(1) by (simp add: field_simps)
  have "\<bar>y - x\<bar> * 10 ^ n < 1 / (2 * 10 ^ n) * 10 ^ n"
    by (rule mult_strict_right_mono) (use assms(2) in simp_all)
  moreover have "\<bar>y * 10 ^ n - x * 10 ^ n\<bar> = \<bar>y - x\<bar> * 10 ^ n"
    by (simp add: left_diff_distrib [symmetric] abs_mult)
  ultimately have "\<bar>y * 10 ^ n - x * 10 ^ n\<bar> < 1 / 2" by simp
  then have near: "\<bar>z - of_int k\<bar> < 1 / 2" unfolding assms(1) z_def .
  then have "\<lfloor>z\<rfloor> = k \<or> \<lfloor>z\<rfloor> = k - 1" by linarith
  then have "(if z - of_int \<lfloor>z\<rfloor> < 1 / 2 then \<lfloor>z\<rfloor>
              else if 1 / 2 < z - of_int \<lfloor>z\<rfloor> then \<lfloor>z\<rfloor> + 1
              else if even \<lfloor>z\<rfloor> then \<lfloor>z\<rfloor> else \<lfloor>z\<rfloor> + 1) = k"
  proof
    assume f: "\<lfloor>z\<rfloor> = k"
    have "z - of_int k < 1 / 2" using near by linarith
    then show ?thesis unfolding f by simp
  next
    assume f: "\<lfloor>z\<rfloor> = k - 1"
    have "1 / 2 < z - (of_int k - 1)" using near by linarith
    then show ?thesis unfolding f by simp
  qed
  then show ?thesis unfolding py_round_def x z_def by (simp add: Let_def)
qed

section \<open>ACWR with an empty chronic window\<close>

lemma calculate_acwr_total: "\<exists>v. calculate_acwr now df arg = Inr v"
  by (simp add: calculate_acwr_def truediv_def ACUTE_PERIOD_DAYS_def CHRONIC_PERIOD_DAYS_def
      Let_def)

text \<open>
  The 7-day window lies inside the 28-day window, so with loads that are not negative the
  acute load never exceeds the chronic load.
\<close>

lemma acute_le_chronic:
  assumes "\<forall>r \<in> set df. 0 \<le> training_load r"
  shows "acute_load df d \<le> chronic_load df d"
  using assms
  by (induction df)
     (auto simp: acute_load_def chronic_load_def window_load_def ACUTE_PERIOD_DAYS_def
        CHRONIC_PERIOD_DAYS_def)

text \<open>
  Claim C4. Whatever the training data and the evaluation date (given, or the clock reading
  by default): when the trailing 7-day and 28-day load sums are both zero,
  \<^verbatim>\<open>calculate_acwr\<close> returns 1.0; when the 28-day sum is zero and the 7-day sum is
  positive, it returns 2.0; and it always returns a value, never a failure.
\<close>

theorem calculate_acwr_zero_chronic:
  "(let d = (case arg of None \<Rightarrow> now | Some x \<Rightarrow> x)
    in (acute_load df d = 0 \<and> chronic_load df d = 0 \<longrightarrow> calculate_acwr now df arg = Inr 1)
     \<and> (chronic_load df d = 0 \<and> 0 < acute_load df d \<longrightarrow> calculate_acwr now df arg = Inr 2))
   \<and> (\<exists>v. calculate_acwr now df arg = Inr v)"
  by (simp add: calculate_acwr_def truediv_def ACUTE_PERIOD_DAYS_def CHRONIC_PERIOD_DAYS_def
      Let_def)

theorem calculate_acwr_zero_chronic_witness:
  "acute_load [] 0 = 0 \<and> chronic_load [] 0 = 0
   \<and> calculate_acwr 0 [] None = Inr 1
   \<and> chronic_load [\<lparr>date = 100, training_load = 5\<rparr>, \<lparr>date = 90, training_load = - 5\<rparr>] 100 = 0
   \<and> 0 < acute_load [\<lparr>date = 100, training_load = 5\<rparr>, \<lparr>date = 90, training_load = - 5\<rparr>] 100
   \<and> calculate_acwr 0 [\<lparr>date = 100, training_load = 5\<rparr>, \<lparr>date = 90, training_load = - 5\<rparr>]
        (Some 100) = Inr 2"
proof -
  let ?df = "[\<lparr>date = 100, training_load = 5\<rparr>, \<lparr>date = 90, training_load = - 5\<rparr>]"
  have a0: "acute_load [] 0 = 0" and c0: "chronic_load [] 0 = 0"
    by (simp_all add: acute_load_def chronic_load_def window_load_def)
  have c1: "chronic_load ?df 100 = 0"
    by (simp add: chronic_load_def window_load_def CHRONIC_PERIOD_DAYS_def)
  have a1: "0 < acute_load ?df 100"
    by (simp add: acute_load_def window_load_def ACUTE_PERIOD_DAYS_def)
  have "calculate_acwr 0 [] None = Inr 1"
    using calculate_acwr_zero_chronic [where arg = None and now = 0 and df = "[]"] a0 c0 by (simp add: Let_def)
  moreover have "calculate_acwr 0 ?df (Some 100) = Inr 2"
    using calculate_acwr_zero_chronic [where arg = "Some 100" and now = 0 and df = ?df] a1 c1 by (simp add: Let_def)
  ultimately show ?thesis using a0 c0 a1 c1 by simp
qed

section \<open>Risk zones\<close>

lemma find_zone_RISK_ZONES:
  "find_zone RISK_ZONES a =
     (if 0 \<le> a \<and> a < 0.8 then
        Some \<lparr>zone = ''undertrained'', label = ''Undertrained'', color = ''#FFC107'', acwr = a\<rparr>
      else if 0.8 \<le> a \<and> a < 1.3 then
        Some \<lparr>zone = ''optimal'', label = ''Optimal Zone'', color = ''#28A745'', acwr = a\<rparr>
      else if 1.3 \<le> a \<and> a < 1.5 then
        Some \<lparr>zone = ''high_risk'', label = ''Elevated Risk'', color = ''#FFC107'', acwr = a\<rparr>
      else if 1.5 \<le> a \<and> a < 2 then
        Some \<lparr>zone = ''danger'', label = ''High Risk'', color = ''#DC3545'', acwr = a\<rparr>
      else if 2 \<le> a \<and> a < 999 then
        Some \<lparr>zone = ''critical'', label = ''Critical Risk'', color = ''#721C24'', acwr = a\<rparr>
      else None)"
  by (simp add: RISK_ZONES_def in_zone_def risk_color_def RISK_COLORS_def)

lemma zones_containing:
  "filter (\<lambda>(n, z). in_zone z a) RISK_ZONES =
     (if 0 \<le> a \<and> a < 0.8 then [RISK_ZONES ! 0]
      else if 0.8 \<le> a \<and> a < 1.3 then [RISK_ZONES ! 1]
      else if 1.3 \<le> a \<and> a < 1.5 then [RISK_ZONES ! 2]
      else if 1.5 \<le> a \<and> a < 2 then [RISK_ZONES ! 3]
      else if 2 \<le> a \<and> a < 999 then [RISK_ZONES ! 4]
      else [])"
  by (simp add: RISK_ZONES_def in_zone_def)

text \<open>
  Claim C6. For every ACWR value \<open>a \<ge> 0\<close>: the configured zones that contain \<open>a\<close> are
  exactly one when \<open>a < 999\<close> and none from 999 on (so no two zones overlap);
  \<^verbatim>\<open>get_risk_level\<close> returns the zone that contains \<open>a\<close>, and the fallback answers
  \<open>critical\<close> where no zone does. The zone returned is undertrained on \<open>[0, 0.8)\<close>,
  optimal on \<open>[0.8, 1.3)\<close>, high\_risk on \<open>[1.3, 1.5)\<close>, danger on \<open>[1.5, 2)\<close> and critical
  on \<open>[2, \<infinity>)\<close>.
\<close>

theorem get_risk_level_partition:
  assumes "0 \<le> a"
  shows "length (filter (\<lambda>(n, z). in_zone z a) RISK_ZONES) = (if a < 999 then 1 else 0)
       \<and> (\<forall>(n, z) \<in> set RISK_ZONES. in_zone z a \<longrightarrow> zone (get_risk_level a) = n)
       \<and> zone (get_risk_level a) =
           (if a < 0.8 then ''undertrained''
            else if a < 1.3 then ''optimal''
            else if a < 1.5 then ''high_risk''
            else if a < 2.0 then ''danger''
            else ''critical'')"
proof (intro conjI)
  show "length (filter (\<lambda>(n, z). in_zone z a) RISK_ZONES) = (if a < 999 then 1 else 0)"
    using assms unfolding zones_containing by simp
  show "\<forall>(n, z) \<in> set RISK_ZONES. in_zone z a \<longrightarrow> zone (get_risk_level a) = n"
    unfolding get_risk_level_def find_zone_RISK_ZONES
    by (simp add: RISK_ZONES_def in_zone_def)
  show "zone (get_risk_level a) =
           (if a < 0.8 then ''undertrained''
            else if a < 1.3 then ''optimal''
            else if a < 1.5 then ''high_risk''
            else if a < 2.0 then ''danger''
            else ''critical'')"
    using assms unfolding get_risk_level_def find_zone_RISK_ZONES by simp
qed

theorem get_risk_level_partition_witness:
  "(0::real) \<le> 1.25
   \<and> length (filter (\<lambda>(n, z). in_zone z 1.25) RISK_ZONES) = 1
   \<and> zone (get_risk_level 1.25) = ''optimal''
   \<and> (0::real) \<le> 1000
   \<and> length (filter (\<lambda>(n, z). in_zone z 1000) RISK_ZONES) = 0
   \<and> zone (get_risk_level 1000) = ''critical''"
  using get_risk_level_partition [of "1.25"] get_risk_level_partition [of 1000] by simp

section \<open>Wellness score\<close>

lemma weighted_score_closed:
  "weighted_score WELLNESS_WEIGHTS (normalized_metrics s f ms st mo mv) 0 =
     Inr (of_int (5 * s + 4 * (11 - f) + 4 * (11 - ms) + 3 * (11 - st) + 2 * mo + 2 * mv) / 20)"
  by (simp add: WELLNESS_WEIGHTS_def normalized_metrics_def field_simps)

lemma wellness_closed:
  "calculate_wellness_score s f ms st mo mv =
     Inr (of_int (5 * s + 4 * (11 - f) + 4 * (11 - ms) + 3 * (11 - st) + 2 * mo + 2 * mv) / 2)"
proof -
  let ?k = "5 * s + 4 * (11 - f) + 4 * (11 - ms) + 3 * (11 - st) + 2 * mo + 2 * mv"
  have "py_round (of_int ?k / 20 * 10) 1 = of_int ?k / 20 * 10"
    by (rule py_round_exact [where k = "5 * ?k"]) simp
  then show ?thesis
    unfolding calculate_wellness_score_def weighted_score_closed by simp
qed

text \<open>
  Claim C8. For wellness inputs in 1..10, \<^verbatim>\<open>calculate_wellness_score\<close> returns a score
  (never a failure), and with the other five inputs fixed a higher sleep quality gives a
  score that is not lower, while a higher fatigue gives a score that is not higher.
\<close>

theorem wellness_score_monotone:
  assumes "sleep_quality \<in> {1..10}" "sleep_quality' \<in> {1..10}"
    "fatigue \<in> {1..10}" "fatigue' \<in> {1..10}"
    "muscle_soreness \<in> {1..10}" "stress \<in> {1..10}" "mood \<in> {1..10}" "motivation \<in> {1..10}"
    "sleep_quality \<le> sleep_quality'" "fatigue \<le> fatigue'"
  shows "\<exists>v v' u.
           calculate_wellness_score sleep_quality fatigue muscle_soreness stress mood motivation = Inr v
         \<and> calculate_wellness_score sleep_quality' fatigue muscle_soreness stress mood motivation = Inr v'
         \<and> calculate_wellness_score sleep_quality fatigue' muscle_soreness stress mood motivation = Inr u
         \<and> v \<le> v' \<and> u \<le> v"
proof -
  define k where "k s f = 5 * s + 4 * (11 - f) + 4 * (11 - muscle_soreness)
                            + 3 * (11 - stress) + 2 * mood + 2 * motivation" for s f :: int
  have closed: "calculate_wellness_score s f muscle_soreness stress mood motivation
                  = Inr (of_int (k s f) / 2)" for s f
    unfolding k_def by (rule wellness_closed)
  have "k sleep_quality fatigue \<le> k sleep_quality' fatigue"
    and "k sleep_quality fatigue' \<le> k sleep_quality fatigue"
    using assms(9,10) unfolding k_def by simp_all
  then have "real_of_int (k sleep_quality fatigue) / 2 \<le> of_int (k sleep_quality' fatigue) / 2"
    and "real_of_int (k sleep_quality fatigue') / 2 \<le> of_int (k sleep_quality fatigue) / 2"
    by simp_all
  then show ?thesis unfolding closed by blast
qed

text \<open>The inputs 4 to 8 for sleep quality and 3 to 6 for fatigue, the rest fixed.\<close>

theorem wellness_score_monotone_witness:
  "(4::int) \<in> {1..10} \<and> (8::int) \<in> {1..10} \<and> (3::int) \<in> {1..10} \<and> (6::int) \<in> {1..10}
   \<and> (5::int) \<in> {1..10} \<and> (7::int) \<in> {1..10} \<and> (4::int) \<le> 8 \<and> (3::int) \<le> 6
   \<and> (\<exists>v v' u. calculate_wellness_score 4 3 5 5 7 7 = Inr v
         \<and> calculate_wellness_score 8 3 5 5 7 7 = Inr v'
         \<and> calculate_wellness_score 4 6 5 5 7 7 = Inr u
         \<and> v \<le> v' \<and> u \<le> v)"
  using wellness_score_monotone [of 4 8 3 6 5 5 7 7] by simp

text \<open>
  Claim C9. For all six wellness inputs in 1..10 the score lies in \<open>[10, 100]\<close>. The lower
  bound 10 is reached (worst inputs: sleep, mood and motivation 1, fatigue, soreness and stress
  10), so no valid input gives a score below 10; the upper bound 100 is reached at the best
  inputs.
\<close>

theorem wellness_score_range:
  "(sleep_quality \<in> {1..10} \<and> fatigue \<in> {1..10} \<and> muscle_soreness \<in> {1..10}
      \<and> stress \<in> {1..10} \<and> mood \<in> {1..10} \<and> motivation \<in> {1..10}
     \<longrightarrow> (\<exists>v. calculate_wellness_score sleep_quality fatigue muscle_soreness stress mood motivation
               = Inr v \<and> 10 \<le> v \<and> v \<le> 100))
   \<and> calculate_wellness_score 1 10 10 10 1 1 = Inr 10
   \<and> calculate_wellness_score 10 1 1 1 10 10 = Inr 100"
proof (intro conjI impI)
  assume r: "sleep_quality \<in> {1..10} \<and> fatigue \<in> {1..10} \<and> muscle_soreness \<in> {1..10}
      \<and> stress \<in> {1..10} \<and> mood \<in> {1..10} \<and> motivation \<in> {1..10}"
  define k where "k = 5 * sleep_quality + 4 * (11 - fatigue) + 4 * (11 - muscle_soreness)
              + 3 * (11 - stress) + 2 * mood + 2 * motivation"
  have closed: "calculate_wellness_score sleep_quality fatigue muscle_soreness stress mood
                  motivation = Inr (of_int k / 2)"
    unfolding k_def by (rule wellness_closed)
  have "20 \<le> k" "k \<le> 200" using r unfolding k_def by auto
  then have "10 \<le> real_of_int k / 2 \<and> real_of_int k / 2 \<le> 100" by simp
  then show "\<exists>v. calculate_wellness_score sleep_quality fatigue muscle_soreness stress mood
                motivation = Inr v \<and> 10 \<le> v \<and> v \<le> 100"
    unfolding closed by blast
next
  show "calculate_wellness_score 1 10 10 10 1 1 = Inr 10"
    unfolding wellness_closed by simp
next
  show "calculate_wellness_score 10 1 1 1 10 10 = Inr 100"
    unfolding wellness_closed by simp
qed

text \<open>A typical day: sleep, mood and motivation 7, fatigue, soreness and stress 3.\<close>

theorem wellness_score_range_witness:
  "(7::int) \<in> {1..10} \<and> (3::int) \<in> {1..10}
   \<and> (\<exists>v. calculate_wellness_score 7 3 3 3 7 7 = Inr v \<and> 10 \<le> v \<and> v \<le> 100)"
  using wellness_score_range [of 7 3 3 3 7 7] by simp

section \<open>Combined risk\<close>

lemma combined_risk_eq:
  "combined_risk (calculate_combined_risk err_w err_c a w) =
     py_round (of_int (acwr_base_risk a) * 0.6 + (100 - w + err_w) * 0.4 + err_c) 1"
  by (simp add: calculate_combined_risk_def Let_def split: prod.split)

lemma acwr_risk_eq: "acwr_risk (calculate_combined_risk err_w err_c a w) = acwr_base_risk a"
  by (simp add: calculate_combined_risk_def Let_def split: prod.split)

text \<open>
  Away from the values 1.3, 1.5 and 2.0 the bands of \<^verbatim>\<open>calculate_combined_risk\<close> are the
  closed-open zones. On those three values the function takes the lower band, while
  \<^verbatim>\<open>get_risk_level\<close> and \<^verbatim>\<open>check_alerts\<close> put the same value in the higher one.
\<close>

lemma acwr_base_risk_inside:
  assumes "a \<noteq> 1.3" "a \<noteq> 1.5" "a \<noteq> 2.0"
  shows "acwr_base_risk a = spec_zone_risk a"
  using assms by (auto simp: acwr_base_risk_def spec_zone_risk_def)

lemma acwr_base_risk_boundary:
  "acwr_base_risk 1.3 = 10 \<and> zone (get_risk_level 1.3) = ''high_risk''
   \<and> acwr_base_risk 1.5 = 50 \<and> zone (get_risk_level 1.5) = ''danger''
   \<and> acwr_base_risk 2.0 = 75 \<and> zone (get_risk_level 2.0) = ''critical''"
  unfolding get_risk_level_def find_zone_RISK_ZONES by (simp add: acwr_base_risk_def)

text \<open>
  The rounding decides the result inside a zone as well. With a wellness score of 50.12 at
  an ACWR of 1.0 the exact value is 25.952, and every deviation below 0.001 leaves the
  returned value at 26.0. With a wellness score of 49.875 the exact value 26.05 is a tie:
  exact arithmetic rounds it to the even 26.0, a float result just above it to 26.1.
\<close>

lemma combined_risk_rounds_inside_zone:
  assumes "\<bar>err_w * 0.4 + err_c\<bar> < 1 / 1000"
  shows "combined_risk (calculate_combined_risk err_w err_c 1 50.12) = 26"
proof -
  define e where "e = err_w * 0.4 + err_c"
  define y where "y = of_int (acwr_base_risk 1) * 0.6 + (100 - 50.12 + err_w) * 0.4 + err_c"
  have "y = 3244 / 125 + e"
    unfolding y_def e_def by (simp add: acwr_base_risk_def algebra_simps)
  moreover have "\<bar>e\<bar> < 1 / 1000" using assms unfolding e_def .
  ultimately have "\<bar>y - 26\<bar> < 1 / 20" by linarith
  then have "\<bar>y - 26\<bar> < 1 / (2 * 10 ^ 1)" by simp
  moreover have "(26::real) * 10 ^ 1 = of_int 260" by simp
  ultimately have "py_round y 1 = 26" by (rule py_round_near [rotated])
  then show ?thesis unfolding combined_risk_eq y_def .
qed

lemma combined_risk_tie:
  "combined_risk (calculate_combined_risk 0 0 1 49.875) = 26
   \<and> combined_risk (calculate_combined_risk 0 (1 / 10 ^ 15) 1 49.875) = 26.1"
  unfolding combined_risk_eq by (simp add: acwr_base_risk_def py_round_def Let_def)

text \<open>
  Claim C3 as stated fails by the rounding: at an ACWR of 1.0 (optimal zone, risk 10) and a
  wellness score of 50.12 the formula gives 25.952, and \<^verbatim>\<open>calculate_combined_risk\<close>
  returns 26.0. It also fails on the zone boundary 1.3, where the function takes the risk
  10 of the optimal band and returns 26 at a wellness score of 50, not the 50 that the
  elevated zone would give.
\<close>

theorem combined_risk_boundary_counterexample:
  "combined_risk (calculate_combined_risk 0 0 1 50.12)
     \<noteq> 0.6 * of_int (spec_zone_risk 1) + 0.4 * (100 - 50.12)
   \<and> combined_risk (calculate_combined_risk 0 0 1.3 50)
     \<noteq> 0.6 * of_int (spec_zone_risk 1.3) + 0.4 * (100 - 50)"
  unfolding combined_risk_eq
  by (simp add: acwr_base_risk_def spec_zone_risk_def py_round_def Let_def)

text \<open>
  Claim C3, amended. For every ACWR value \<open>a \<ge> 0\<close> other than the three values 1.3, 1.5
  and 2.0 and every wellness score \<open>w\<close>, the ACWR risk \<open>r\<close> is the one of the closed-open
  zone that contains \<open>a\<close> (30 undertrained, 10 optimal, 50 elevated, 75 high, 95
  critical), and the combined risk returned is \<open>0.6 r + 0.4 (100 - w)\<close> rounded to one
  decimal: a multiple of 0.1 that lies within 0.05, plus the deviation of the float
  arithmetic, of that value, and that is equal to it whenever \<open>4 w\<close> is an integer (as
  for every score the wellness scorer returns). Nothing is said about the three boundary
  values.
\<close>

theorem combined_risk_bands:
  assumes "0 \<le> a" "a \<noteq> 1.3" "a \<noteq> 1.5" "a \<noteq> 2.0" "\<bar>err_w * 0.4 + err_c\<bar> < 1 / 20"
  shows "acwr_risk (calculate_combined_risk err_w err_c a w) = spec_zone_risk a
       \<and> (\<exists>k. combined_risk (calculate_combined_risk err_w err_c a w) = of_int k / 10)
       \<and> \<bar>combined_risk (calculate_combined_risk err_w err_c a w)
            - (0.6 * of_int (spec_zone_risk a) + 0.4 * (100 - w))\<bar>
           \<le> 1 / 20 + \<bar>err_w * 0.4 + err_c\<bar>
       \<and> (4 * w \<in> \<int> \<longrightarrow>
            combined_risk (calculate_combined_risk err_w err_c a w) =
              0.6 * of_int (spec_zone_risk a) + 0.4 * (100 - w))"
proof (intro conjI impI)
  define x where "x = 0.6 * of_int (spec_zone_risk a) + 0.4 * (100 - w)"
  define e where "e = err_w * 0.4 + err_c"
  have r: "acwr_base_risk a = spec_zone_risk a"
    using assms(2-4) by (rule acwr_base_risk_inside)
  have eq: "combined_risk (calculate_combined_risk err_w err_c a w) = py_round (x + e) 1"
    unfolding combined_risk_eq r x_def e_def by (simp add: algebra_simps)
  show "acwr_risk (calculate_combined_risk err_w err_c a w) = spec_zone_risk a"
    unfolding acwr_risk_eq by (rule r)
  show "\<exists>k. combined_risk (calculate_combined_risk err_w err_c a w) = of_int k / 10"
    unfolding eq py_round_def by (simp add: Let_def)
  have "\<bar>py_round (x + e) 1 - (x + e)\<bar> \<le> 1 / 20"
    using py_round_error [of "x + e" 1] by simp
  then have "\<bar>py_round (x + e) 1 - x\<bar> \<le> 1 / 20 + \<bar>e\<bar>" by linarith
  then show "\<bar>combined_risk (calculate_combined_risk err_w err_c a w)
            - (0.6 * of_int (spec_zone_risk a) + 0.4 * (100 - w))\<bar>
           \<le> 1 / 20 + \<bar>err_w * 0.4 + err_c\<bar>"
    unfolding eq x_def e_def .
  assume "4 * w \<in> \<int>"
  then obtain k where k: "4 * w = of_int k" by (auto elim: Ints_cases)
  have "x * 10 ^ 1 = of_int (6 * spec_zone_risk a + 400 - k)"
    using k unfolding x_def by (simp add: field_simps)
  moreover have "\<bar>(x + e) - x\<bar> < 1 / (2 * 10 ^ 1)"
    using assms(5) unfolding e_def by simp
  ultimately have "py_round (x + e) 1 = x" by (rule py_round_near)
  then show "combined_risk (calculate_combined_risk err_w err_c a w) =
              0.6 * of_int (spec_zone_risk a) + 0.4 * (100 - w)"
    unfolding eq x_def .
qed

text \<open>
  At an ACWR of 1.0 and a wellness score of 50, with exact arithmetic: risk 10, combined
  risk 26.
\<close>

theorem combined_risk_bands_witness:
  "(0::real) \<le> 1 \<and> (1::real) \<noteq> 1.3 \<and> (1::real) \<noteq> 1.5 \<and> (1::real) \<noteq> 2.0
   \<and> \<bar>(0::real) * 0.4 + 0\<bar> < 1 / 20 \<and> 4 * (50::real) \<in> \<int>
   \<and> acwr_risk (calculate_combined_risk 0 0 1 50) = 10
   \<and> combined_risk (calculate_combined_risk 0 0 1 50) = 26"
proof -
  have m: "4 * (50::real) \<in> \<int>" by simp
  have h: "(0::real) \<le> 1" "(1::real) \<noteq> 1.3" "(1::real) \<noteq> 1.5" "(1::real) \<noteq> 2.0"
    "\<bar>(0::real) * 0.4 + 0\<bar> < 1 / 20"
    by simp_all
  have s: "spec_zone_risk 1 = 10" by (simp add: spec_zone_risk_def)
  have "acwr_risk (calculate_combined_risk 0 0 1 50) = 10"
    using combined_risk_bands [OF h, of 50] s by simp
  moreover have "combined_risk (calculate_combined_risk 0 0 1 50) =
          0.6 * of_int (spec_zone_risk 1) + 0.4 * (100 - 50)"
    using combined_risk_bands [OF h, of 50] m by blast
  then have "combined_risk (calculate_combined_risk 0 0 1 50) = 26"
    unfolding s by simp
  ultimately show ?thesis using m h by simp
qed

section \<open>Alerts\<close>

text \<open>
  The wellness alert is emitted exactly for scores below 5, which no score that
  \<^verbatim>\<open>calculate_wellness_score\<close> computes from inputs in 1..10 is.
\<close>

lemma wellness_alerts_empty_iff: "wellness_alerts fmt stamp aid aname w = [] \<longleftrightarrow> 5 \<le> w"
  by (simp add: wellness_alerts_def ALERT_THRESHOLDS_def)

lemma wellness_alerts_computed_score:
  assumes "s \<in> {1..10}" "f \<in> {1..10}" "ms \<in> {1..10}" "st \<in> {1..10}" "mo \<in> {1..10}"
    "mv \<in> {1..10}" "calculate_wellness_score s f ms st mo mv = Inr w"
  shows "wellness_alerts fmt stamp aid aname w = []"
proof -
  define k where "k = 5 * s + 4 * (11 - f) + 4 * (11 - ms) + 3 * (11 - st) + 2 * mo + 2 * mv"
  have "w = of_int k / 2" using assms(7) unfolding wellness_closed k_def by simp
  moreover have "20 \<le> k" using assms(1-6) unfolding k_def by auto
  ultimately have "5 \<le> w" by simp
  then show ?thesis by (simp add: wellness_alerts_empty_iff)
qed

text \<open>
  Claim C2. The claim asks for a low-wellness warning whenever the 0 to 100 wellness score
  is below 50. The code compares the score with the unscaled threshold 5.0: an athlete with
  sleep 3, fatigue 8, soreness 8, stress 8, mood 3 and motivation 3 has the wellness score
  30, and \<^verbatim>\<open>check_alerts\<close> at an ACWR of 1.0 and that score returns no alert at all.
\<close>

theorem low_wellness_alert_missing:
  "calculate_wellness_score 3 8 8 8 3 3 = Inr 30
   \<and> check_alerts fmt clock aid aname 1 30 cr = []"
  unfolding wellness_closed
  by (simp add: check_alerts_def acwr_alerts_def wellness_alerts_def ALERT_THRESHOLDS_def)

text \<open>
  Claim C10. For every ACWR value and wellness score, the alerts one call of
  \<^verbatim>\<open>check_alerts\<close> returns are, in this order: at most one ACWR alert, namely the
  critical one from 2.0 on, else the warning from 1.5 on, else the caution from 1.3 on, else
  none (the highest band wins, and an ACWR of 2.0 or more gives the critical alert only);
  then at most one wellness alert. So the list holds at most one ACWR alert and at most two
  alerts in total.
\<close>

theorem check_alerts_at_most_two:
  "map (\<lambda>x. (alert_type x, action x)) (check_alerts fmt clock aid aname a w cr) =
     (if 2 \<le> a then [(''critical'', ''Immediate rest required. Contact medical staff.'')]
      else if 1.5 \<le> a then [(''warning'', ''Reduce training load significantly'')]
      else if 1.3 \<le> a then [(''caution'', ''Monitor closely and consider reducing intensity'')]
      else [])
     @ (if w < 5 then [(''warning'', ''Check in with athlete. Consider recovery day.'')] else [])
   \<and> length (filter (\<lambda>x. action x \<noteq> ''Check in with athlete. Consider recovery day.'')
         (check_alerts fmt clock aid aname a w cr)) \<le> 1
   \<and> length (check_alerts fmt clock aid aname a w cr) \<le> 2"
  by (simp add: check_alerts_def acwr_alerts_def wellness_alerts_def ALERT_THRESHOLDS_def Let_def)

text \<open>
  An ACWR of 2.5 with a wellness score of 3 gives the critical alert and the wellness
  warning, and nothing else.
\<close>

lemma check_alerts_both:
  "map alert_type (check_alerts sample_fmt sample_clock ''JOC001'' ''Athlete'' 2.5 3 ())
     = [''critical'', ''warning'']"
  by (simp add: check_alerts_def acwr_alerts_def wellness_alerts_def ALERT_THRESHOLDS_def Let_def)

section \<open>Kick detection\<close>

text \<open>What one frame does to the cooldown and to the list of detected kicks.\<close>

lemma analyze_frame_None [simp]: "snd (analyze_frame None t i s) = s"
  by (simp add: analyze_frame_def)

lemma cooldown_analyze_frame:
  "cooldown (snd (analyze_frame (Some p) t i s)) =
     (if raw_kick_height p \<ge> 25 \<and> cooldown s = 0 then 9
      else if cooldown s > 0 then cooldown s - 1 else cooldown s)"
  by (simp add: analyze_frame_def detect_kick_def tick_cooldown_def Let_def)

lemma kicks_analyze_frame:
  "detected_kicks (snd (analyze_frame (Some p) t i s)) =
     (if raw_kick_height p \<ge> 25 \<and> cooldown s = 0
      then detected_kicks s @
             [metrics.extend (build_metrics p t i)
                (kick_data.fields (int (length (detected_kicks s)) + 1))]
      else detected_kicks s)"
  by (simp add: analyze_frame_def detect_kick_def tick_cooldown_def Let_def)

lemma frame_idx_extend [simp]:
  "frame_idx (metrics.extend (build_metrics p t i) e) = i"
  by (simp add: metrics.defs build_metrics_def)

lemma process_frames_append:
  "process_frames (xs @ ys) s = process_frames ys (process_frames xs s)"
  by (induction xs arbitrary: s) auto

text \<open>
  Frames below the threshold (or without metrics) add no kick; \<open>n\<close> frames at or above it,
  met with a cooldown of \<open>c\<close>, add a kick at frame \<open>c + 1\<close> and every tenth frame after it.
\<close>

lemma low_frames_keep:
  assumes "\<forall>fr \<in> set frs. low_frame fr" "0 \<le> cooldown s"
  shows "detected_kicks (process_frames frs s) = detected_kicks s
       \<and> 0 \<le> cooldown (process_frames frs s) \<and> cooldown (process_frames frs s) \<le> cooldown s"
  using assms
proof (induction frs arbitrary: s)
  case Nil
  then show ?case by simp
next
  case (Cons fr frs)
  obtain l t i where fr: "fr = (l, t, i)" by (cases fr)
  let ?s = "snd (analyze_frame l t i s)"
  have step: "detected_kicks ?s = detected_kicks s \<and> 0 \<le> cooldown ?s \<and> cooldown ?s \<le> cooldown s"
  proof (cases l)
    case None
    then show ?thesis using Cons.prems by simp
  next
    case (Some p)
    with Cons.prems fr have "raw_kick_height p < 25" by (simp add: low_frame_def)
    then show ?thesis using Cons.prems Some
      by (simp add: cooldown_analyze_frame kicks_analyze_frame)
  qed
  have "detected_kicks (process_frames frs ?s) = detected_kicks ?s
       \<and> 0 \<le> cooldown (process_frames frs ?s) \<and> cooldown (process_frames frs ?s) \<le> cooldown ?s"
    using Cons.IH [of ?s] Cons.prems step by simp
  then show ?case using step fr by simp
qed

lemma high_frames_count:
  assumes "\<forall>fr \<in> set frs. high_frame fr" "0 \<le> cooldown s" "cooldown s \<le> 9"
  shows "length (detected_kicks (process_frames frs s)) =
           length (detected_kicks s) + (length frs + 9 - nat (cooldown s)) div 10
       \<and> 0 \<le> cooldown (process_frames frs s)"
  using assms
proof (induction frs arbitrary: s)
  case Nil
  then show ?case by simp
next
  case (Cons fr frs)
  obtain l t i where fr: "fr = (l, t, i)" by (cases fr)
  from Cons.prems fr obtain p where l: "l = Some p" and h: "raw_kick_height p \<ge> 25"
    by (auto simp: high_frame_def split: option.splits)
  let ?s = "snd (analyze_frame l t i s)"
  show ?case
  proof (cases "cooldown s = 0")
    case True
    have c: "cooldown ?s = 9" using l h True by (simp add: cooldown_analyze_frame)
    have k: "length (detected_kicks ?s) = length (detected_kicks s) + 1"
      using l h True by (simp add: kicks_analyze_frame)
    have "length (detected_kicks (process_frames frs ?s)) =
           length (detected_kicks ?s) + (length frs + 9 - nat (cooldown ?s)) div 10
       \<and> 0 \<le> cooldown (process_frames frs ?s)"
      using Cons.IH [of ?s] Cons.prems c by simp
    then show ?thesis using c k True fr by simp
  next
    case False
    then have pos: "cooldown s > 0" using Cons.prems by simp
    have c: "cooldown ?s = cooldown s - 1" using l pos by (simp add: cooldown_analyze_frame)
    have k: "detected_kicks ?s = detected_kicks s"
      using l pos by (simp add: kicks_analyze_frame)
    have "length (detected_kicks (process_frames frs ?s)) =
           length (detected_kicks ?s) + (length frs + 9 - nat (cooldown ?s)) div 10
       \<and> 0 \<le> cooldown (process_frames frs ?s)"
      using Cons.IH [of ?s] Cons.prems c pos by simp
    moreover have "length frs + 9 - nat (cooldown s - 1) = length (fr # frs) + 9 - nat (cooldown s)"
      using pos Cons.prems by (simp add: nat_diff_distrib)
    ultimately show ?thesis using c k fr by simp
  qed
qed

text \<open>The invariant \<open>spaced\<close> is kept by every frame with a larger index.\<close>

lemma spaced_step:
  assumes "spaced L s" "L < i"
  shows "spaced i (snd (analyze_frame l t i s))"
proof (cases l)
  case None
  then show ?thesis using assms by (auto simp: spaced_def)
next
  case (Some p)
  show ?thesis
  proof (cases "raw_kick_height p \<ge> 25 \<and> cooldown s = 0")
    case True
    then show ?thesis using assms Some
      by (auto simp: spaced_def cooldown_analyze_frame kicks_analyze_frame sorted_wrt_append)
  next
    case False
    then show ?thesis using assms Some
      by (auto simp: spaced_def cooldown_analyze_frame kicks_analyze_frame)
  qed
qed

lemma spaced_process:
  assumes "spaced L s" "sorted_wrt (<) (map frame_index frs)" "\<forall>fr \<in> set frs. L < frame_index fr"
  shows "\<exists>L'. spaced L' (process_frames frs s)"
  using assms
proof (induction frs arbitrary: s L)
  case Nil
  then show ?case by auto
next
  case (Cons fr frs)
  obtain l t i where fr: "fr = (l, t, i)" by (cases fr)
  have "L < i" using Cons.prems(3) fr by (simp add: frame_index_def)
  then have "spaced i (snd (analyze_frame l t i s))" using Cons.prems(1) by (rule spaced_step [rotated])
  moreover have "sorted_wrt (<) (map frame_index frs)" using Cons.prems(2) by simp
  moreover have "\<forall>fr' \<in> set frs. i < frame_index fr'"
    using Cons.prems(2) fr by (simp add: frame_index_def)
  ultimately show ?case using Cons.IH fr by simp
qed

lemma spaced_new: "spaced L new_analyzer"
  by (simp add: spaced_def new_analyzer_def)

text \<open>
  Claim C5. For every stream of frames with strictly increasing frame indices fed to a fresh
  analyzer (frames without metrics included), any two detected kicks lie at least 10 frame
  indices apart: a later kick's frame index is at least the earlier one's plus 10.
\<close>

theorem kicks_ten_frames_apart:
  assumes "sorted_wrt (<) (map frame_index frames)"
  shows "\<forall>i j. i < j \<and> j < length (detected_kicks (process_frames frames new_analyzer)) \<longrightarrow>
           frame_idx (detected_kicks (process_frames frames new_analyzer) ! i) + 10
             \<le> frame_idx (detected_kicks (process_frames frames new_analyzer) ! j)"
proof -
  define L where "L = (case frames of [] \<Rightarrow> 0 | fr # _ \<Rightarrow> frame_index fr - 1)"
  have "\<forall>fr \<in> set frames. L < frame_index fr"
    using assms unfolding L_def by (cases frames) auto
  with spaced_process [OF spaced_new assms, of L]
  obtain L' where "spaced L' (process_frames frames new_analyzer)" by blast
  then have "sorted_wrt (\<lambda>a b. frame_idx a + 10 \<le> frame_idx b)
               (detected_kicks (process_frames frames new_analyzer))"
    by (simp add: spaced_def)
  then show ?thesis by (simp add: sorted_wrt_iff_nth_less)
qed

lemma low_sample: "low_frame (sample_frame 10 k)"
  by (simp add: low_frame_def sample_frame_def)

lemma high_sample: "high_frame (sample_frame 30 k)"
  by (simp add: high_frame_def sample_frame_def)

text \<open>
  Claim C1 as stated fails: in the sample stream the kick height is at least 25 on 15
  consecutive frames and below 25 elsewhere, and the fresh analyzer detects two kicks, not
  one (the cooldown of 10 set on the spike's first frame has run out on its eleventh).
\<close>

theorem sustained_spike_counterexample:
  "list_all low_frame sample_pre \<and> list_all high_frame sample_spike \<and> length sample_spike = 15
   \<and> list_all low_frame sample_post
   \<and> length (detected_kicks (process_frames (sample_pre @ sample_spike @ sample_post) new_analyzer)) = 2
   \<and> length (detected_kicks (process_frames (sample_pre @ sample_spike @ sample_post) new_analyzer)) \<noteq> 1"
proof -
  have "list_all low_frame sample_pre" "list_all high_frame sample_spike" "list_all low_frame sample_post"
    by (simp_all add: sample_pre_def sample_spike_def sample_post_def list_all_iff low_sample high_sample)
  moreover have "length sample_spike = 15" by (simp add: sample_spike_def)
  moreover have "length (detected_kicks (process_frames (sample_pre @ sample_spike @ sample_post) new_analyzer)) = 2"
    by code_simp
  ultimately show ?thesis by simp
qed

text \<open>
  Claim C1, amended. For every stream in which the kick height is at least 25 on \<open>n\<close>
  consecutive frames and below 25 (or absent) elsewhere, a fresh analyzer detects exactly
  \<open>\<lceil>n / 10\<rceil>\<close> kicks: exactly one for a spike of 1 to 10 frames, and exactly two for the
  spike of 15 frames.
\<close>

theorem sustained_spike_kick_count:
  assumes "\<forall>fr \<in> set pre. low_frame fr" "\<forall>fr \<in> set spike. high_frame fr"
    "\<forall>fr \<in> set post. low_frame fr"
  shows "length (detected_kicks (process_frames (pre @ spike @ post) new_analyzer)) =
           (length spike + 9) div 10"
proof -
  let ?s1 = "process_frames pre new_analyzer"
  let ?s2 = "process_frames spike ?s1"
  have s1: "detected_kicks ?s1 = [] \<and> cooldown ?s1 = 0"
    using low_frames_keep [OF assms(1), of new_analyzer] by (simp add: new_analyzer_def)
  have s2: "length (detected_kicks ?s2) = (length spike + 9) div 10 \<and> 0 \<le> cooldown ?s2"
    using high_frames_count [OF assms(2), of ?s1] s1 by simp
  have "detected_kicks (process_frames post ?s2) = detected_kicks ?s2"
    using low_frames_keep [OF assms(3), of ?s2] s2 by simp
  then show ?thesis using s2 by (simp add: process_frames_append)
qed

text \<open>The sample stream with its spike of 15 frames, and with the spike cut to 10 frames.\<close>

theorem sustained_spike_kick_count_witness:
  "list_all low_frame sample_pre \<and> list_all high_frame sample_spike
   \<and> list_all low_frame sample_post \<and> length sample_spike = 15
   \<and> length (detected_kicks (process_frames (sample_pre @ sample_spike @ sample_post) new_analyzer)) = 2
   \<and> list_all high_frame (take 10 sample_spike)
   \<and> length (detected_kicks (process_frames (sample_pre @ take 10 sample_spike @ sample_post) new_analyzer)) = 1"
proof -
  have pre: "\<forall>fr \<in> set sample_pre. low_frame fr" and post: "\<forall>fr \<in> set sample_post. low_frame fr"
    by (simp_all add: sample_pre_def sample_post_def low_sample)
  have spike: "\<forall>fr \<in> set sample_spike. high_frame fr"
    by (simp add: sample_spike_def high_sample)
  then have spike10: "\<forall>fr \<in> set (take 10 sample_spike). high_frame fr"
    by (meson in_set_takeD)
  have len: "length sample_spike = 15" by (simp add: sample_spike_def)
  have "length (detected_kicks (process_frames (sample_pre @ sample_spike @ sample_post) new_analyzer)) = 2"
    using sustained_spike_kick_count [OF pre spike post] len by simp
  moreover have "length (detected_kicks (process_frames (sample_pre @ take 10 sample_spike @ sample_post) new_analyzer)) = 1"
    using sustained_spike_kick_count [OF pre spike10 post] len by simp
  ultimately show ?thesis using pre post spike spike10 len by (simp add: list_all_iff)
qed

text \<open>
  In the sample stream the two kicks are detected at the frame indices 3 and 13: the
  distance of 10 is reached.
\<close>

theorem kicks_ten_frames_apart_witness:
  "sorted_wrt (<) (map frame_index (sample_pre @ sample_spike @ sample_post))
   \<and> map frame_idx (detected_kicks (process_frames (sample_pre @ sample_spike @ sample_post) new_analyzer)) = [3, 13]
   \<and> frame_idx (detected_kicks (process_frames (sample_pre @ sample_spike @ sample_post) new_analyzer) ! 0) + 10
       \<le> frame_idx (detected_kicks (process_frames (sample_pre @ sample_spike @ sample_post) new_analyzer) ! 1)"
proof -
  let ?fs = "sample_pre @ sample_spike @ sample_post"
  have s: "sorted_wrt (<) (map frame_index ?fs)" by code_simp
  have k: "map frame_idx (detected_kicks (process_frames ?fs new_analyzer)) = [3, 13]"
    by code_simp
  then have "length (detected_kicks (process_frames ?fs new_analyzer)) = 2"
    by (metis length_map list.size(3,4) One_nat_def Suc_1 add.commute plus_1_eq_Suc)
  then have "frame_idx (detected_kicks (process_frames ?fs new_analyzer) ! 0) + 10
       \<le> frame_idx (detected_kicks (process_frames ?fs new_analyzer) ! 1)"
    using kicks_ten_frames_apart [OF s] by simp
  then show ?thesis using s k by simp
qed

section \<open>Technique score\<close>

text \<open>
  Claim C7. For a metrics record with knee angle 170, kick height 80, hip flexion 115,
  support knee 170 and visibility 90 (whatever its other fields), \<^verbatim>\<open>calculate_score\<close>
  returns the total \<open>25 + 30 + 20 + 15 + 10 = 100\<close> with the four success messages, and
  \<^verbatim>\<open>get_grade\<close> gives the score 100 the grade A+.
\<close>

theorem perfect_kick_score:
  "calculate_score (Some \<lparr>frame_idx = i, frame_time = t, kick_height = 80, knee_angle = 170,
       hip_flexion = 115, support_knee = 170, hip_rotation = r, kicking_leg = l, level = lv,
       visibility = 90\<rparr>)
     = (25 + 30 + 20 + 15 + 10,
        [(''Full leg extension - maximum power'', ''success''),
         (''Head level - competition standard'', ''success''),
         (''Excellent hip chamber'', ''success''),
         (''Stable base - excellent balance'', ''success'')])
   \<and> (25 + 30 + 20 + 15 + 10 :: int) = 100
   \<and> get_grade 100 = (''A+'', ''Elite'', ''#4ade80'')"
  by (simp add: calculate_score_def knee_points_def height_points_def hip_points_def
      support_points_def visibility_points_def get_grade_def grades_def)

end
